theory Spec2Isabelle
  imports Main
begin

section \<open>Data model\<close>

text \<open>
  \<^verbatim>\<open>DeviceChoices\<close> and \<^verbatim>\<open>UserChoices\<close> of \<^verbatim>\<open>livekit/useLiveKit\<close>, as
  \<^verbatim>\<open>GroupCallView.tsx\<close> and \<^verbatim>\<open>VideoPreview.tsx\<close> build them. An optional field
  that is \<^verbatim>\<open>undefined\<close> or not set at all is \<open>None\<close>.
\<close>

record DeviceChoices =
  selectedId :: string
  enabled :: bool

record UserChoices =
  audio :: "DeviceChoices option"
  video :: "DeviceChoices option"

text \<open>A JavaScript \<^verbatim>\<open>Error\<close> object, by its message.\<close>

datatype JsError = Error string

text \<open>\<^verbatim>\<open>GroupCallState\<close> of matrix-js-sdk; the component only tests for \<^verbatim>\<open>Entered\<close>.\<close>

datatype GroupCallState =
    LocalCallFeedUninitialized
  | InitializingLocalCallFeed
  | LocalCallFeedInitialized
  | Entering
  | Entered
  | Ended

section \<open>GroupCallView: the view that is rendered\<close>

text \<open>
  The props and the state of \<^verbatim>\<open>GroupCallView\<close> on one render: everything its
  \<^verbatim>\<open>return\<close> statements (lines 223 to 296), its effects and its callbacks read.
  \<open>fociLivekitServiceUrl\<close> is \<^verbatim>\<open>groupCall.foci[0]?.livekitServiceUrl\<close> and
  \<open>configLivekitServiceUrl\<close> is \<^verbatim>\<open>Config.get().livekit.livekit_service_url\<close>, each
  \<open>None\<close> when \<^verbatim>\<open>undefined\<close> or \<^verbatim>\<open>null\<close>; \<open>error\<close> and \<open>state\<close> come from
  \<^verbatim>\<open>useGroupCall\<close>; \<open>userChoices\<close> and \<open>left\<close> are the component's own state;
  \<open>analyticsEnabled\<close> is \<^verbatim>\<open>PosthogAnalytics.instance.isEnabled()\<close>.
\<close>

record SessionViewState =
  fociLivekitServiceUrl :: "string option"
  configLivekitServiceUrl :: "string option"
  error :: "JsError option"
  state :: GroupCallState
  userChoices :: "UserChoices option"
  left :: bool
  preload :: bool
  isEmbedded :: bool
  isPasswordlessUser :: bool
  analyticsEnabled :: bool

text \<open>
  The element returned: \<^verbatim>\<open>ErrorView\<close> with its error, \<^verbatim>\<open>ActiveCall\<close> (inside
  \<^verbatim>\<open>OpenIDLoader\<close>) with the service URL and the user choices it is given,
  \<^verbatim>\<open>CallEndedView\<close>, \<^verbatim>\<open>null\<close>, the \<^verbatim>\<open>FullScreenView\<close> that says "Loading", and
  \<^verbatim>\<open>LobbyView\<close>.
\<close>

datatype View =
    ErrorView JsError
  | ActiveCall string UserChoices
  | CallEndedView
  | RenderNull
  | LoadingView
  | LobbyView

text \<open>The operator \<^verbatim>\<open>a ?? b\<close>: \<open>b\<close> only when \<open>a\<close> is \<^verbatim>\<open>null\<close> or \<^verbatim>\<open>undefined\<close>.\<close>

definition nullish :: "'a option \<Rightarrow> 'a option \<Rightarrow> 'a option" where
  "nullish a b = (case a of Some x \<Rightarrow> Some x | None \<Rightarrow> b)"

text \<open>\<^verbatim>\<open>!s\<close> for an optional string: \<^verbatim>\<open>undefined\<close> and the empty string are falsy.\<close>

definition falsy :: "string option \<Rightarrow> bool" where
  "falsy s = (case s of None \<Rightarrow> True | Some v \<Rightarrow> v = [])"

definition livekitServiceURL :: "SessionViewState \<Rightarrow> string option" where
  "livekitServiceURL p = nullish (fociLivekitServiceUrl p) (configLivekitServiceUrl p)"

text \<open>
  The chain of \<^verbatim>\<open>if\<close> / \<^verbatim>\<open>else if\<close> of lines 226 to 296, in the order of the source.
  An object is truthy, so \<^verbatim>\<open>if (error)\<close> and \<^verbatim>\<open>&& userChoices\<close> test for presence
  (also of the empty object \<^verbatim>\<open>{}\<close>).
\<close>

definition GroupCallView :: "SessionViewState \<Rightarrow> View" where
  "GroupCallView p =
    (if falsy (livekitServiceURL p) then ErrorView (Error ''No livekit_service_url defined'')
     else if error p \<noteq> None then ErrorView (the (error p))
     else if state p = Entered \<and> userChoices p \<noteq> None
       then ActiveCall (the (livekitServiceURL p)) (the (userChoices p))
     else if left p then
       (if isPasswordlessUser p \<or> (analyticsEnabled p \<and> \<not> isEmbedded p)
        then CallEndedView else RenderNull)
     else if preload p then RenderNull
     else if isEmbedded p then LoadingView
     else LobbyView)"

fun isErrorView :: "View \<Rightarrow> bool" where
  "isErrorView (ErrorView e) = True"
| "isErrorView v = False"

fun isActiveCall :: "View \<Rightarrow> bool" where
  "isActiveCall (ActiveCall u c) = True"
| "isActiveCall v = False"

subsection \<open>The decision table of the specification\<close>

text \<open>
  The seven rules of the specification's view-selection table, each a partial function
  from the inputs to a view, and the table read first match first.
\<close>

fun first_match :: "('a \<Rightarrow> 'b option) list \<Rightarrow> 'a \<Rightarrow> 'b option" where
  "first_match [] x = None"
| "first_match (r # rs) x = (case r x of Some v \<Rightarrow> Some v | None \<Rightarrow> first_match rs x)"

definition spec_rule_no_url :: "SessionViewState \<Rightarrow> View option" where
  "spec_rule_no_url p =
    (case livekitServiceURL p of
       None \<Rightarrow> Some (ErrorView (Error ''No livekit_service_url defined''))
     | Some u \<Rightarrow> if u = [] then Some (ErrorView (Error ''No livekit_service_url defined''))
                else None)"

definition spec_rule_error :: "SessionViewState \<Rightarrow> View option" where
  "spec_rule_error p = map_option ErrorView (error p)"

definition spec_rule_entered :: "SessionViewState \<Rightarrow> View option" where
  "spec_rule_entered p =
    (case (state p, userChoices p, livekitServiceURL p) of
       (Entered, Some c, Some u) \<Rightarrow> Some (ActiveCall u c)
     | _ \<Rightarrow> None)"

definition spec_rule_left :: "SessionViewState \<Rightarrow> View option" where
  "spec_rule_left p =
    (if left p then
       Some (if isPasswordlessUser p then CallEndedView
             else if analyticsEnabled p \<and> \<not> isEmbedded p then CallEndedView
             else RenderNull)
     else None)"

definition spec_rule_preload :: "SessionViewState \<Rightarrow> View option" where
  "spec_rule_preload p = (if preload p then Some RenderNull else None)"

definition spec_rule_embedded :: "SessionViewState \<Rightarrow> View option" where
  "spec_rule_embedded p = (if isEmbedded p then Some LoadingView else None)"

definition spec_rule_otherwise :: "SessionViewState \<Rightarrow> View option" where
  "spec_rule_otherwise p = Some LobbyView"

definition spec_view_selection :: "SessionViewState \<Rightarrow> View option" where
  "spec_view_selection =
    first_match [spec_rule_no_url, spec_rule_error, spec_rule_entered, spec_rule_left,
                 spec_rule_preload, spec_rule_embedded, spec_rule_otherwise]"

section \<open>Widget commands, entering and leaving\<close>

subsection \<open>Devices and the JoinCall payload\<close>

text \<open>\<^verbatim>\<open>MediaDeviceInfo\<close> of the browser, as \<^verbatim>\<open>Room.getLocalDevices()\<close> returns it.\<close>

datatype MediaDeviceKind = AudioInput | VideoInput | AudioOutput

record MediaDeviceInfo =
  deviceId :: string
  kind :: MediaDeviceKind
  label :: string

text \<open>
  A field of the payload \<^verbatim>\<open>ev.detail.data\<close>. The cast
  \<^verbatim>\<open>as unknown as JoinCallData\<close> checks nothing, so at run time a field is a string,
  \<^verbatim>\<open>null\<close>, or missing (\<^verbatim>\<open>undefined\<close>).
\<close>

datatype JsName = JsNull | JsUndefined | JsString string

record JoinCallData =
  audioInput :: JsName
  videoInput :: JsName

text \<open>String conversion, as \<^verbatim>\<open>"..." + audioInput\<close> and a template literal do it.\<close>

fun toString :: "JsName \<Rightarrow> string" where
  "toString JsNull = ''null''"
| "toString JsUndefined = ''undefined''"
| "toString (JsString s) = s"

text \<open>
  Modelled from the spec: \<^verbatim>\<open>findDeviceByName\<close> is imported from \<^verbatim>\<open>../media-utils\<close>,
  which is not among the sources. The specification has the bridge "resolve each named
  device to a concrete device id against the live device list", unknown names resolving to
  nothing: the id of the first device of the requested kind whose label is the name. A name
  that is not a string equals no label.
\<close>

definition findDeviceByName ::
  "JsName \<Rightarrow> MediaDeviceKind \<Rightarrow> MediaDeviceInfo list \<Rightarrow> string option" where
  "findDeviceByName deviceName k devices =
    (case deviceName of
       JsString n \<Rightarrow> map_option deviceId (find (\<lambda>d. kind d = k \<and> label d = n) devices)
     | _ \<Rightarrow> None)"

subsection \<open>Traces\<close>

text \<open>
  The handlers are sequences of calls into collaborators (the widget API, analytics, the
  logger, the group call, React state setters). A handler is modelled by the trace of the
  calls it makes, in order. \<open>Do c\<close> is a call whose result is not awaited,
  \<open>Await c out\<close> is \<^verbatim>\<open>await c\<close> with the way the promise settles, and
  \<open>AwaitAll cs\<close> is \<^verbatim>\<open>await Promise.all([...])\<close>: the calls of \<open>cs\<close> are all started,
  in order, before any of them is awaited. An awaited promise that rejects or never settles
  ends the trace: the rest of the \<^verbatim>\<open>async\<close> function does not run.
\<close>

datatype WidgetAction = JoinCall | HangupCall

datatype Call =
    GetLocalDevices
  | FindDeviceByName JsName MediaDeviceKind
  | LoggerWarn string
  | LoggerDebug string
  | SetUserChoices UserChoices
  | Enter
  | CacheStartCall
  | TrackCallStarted string
  | SetAlwaysOnScreen bool
  | TransportReply
  | SetLeft bool
  | TrackCallEnded string nat bool
  | Leave
  | SetTimeout nat
  | Logout
  | TransportSend WidgetAction
  | HistoryPush string

datatype Outcome = Resolved | Rejected | Pending

datatype Step = Do Call | Await Call Outcome | AwaitAll "Call list"

fun calls_of :: "Step \<Rightarrow> Call list" where
  "calls_of (Do c) = [c]"
| "calls_of (Await c out) = [c]"
| "calls_of (AwaitAll cs) = cs"

definition calls :: "Step list \<Rightarrow> Call list" where
  "calls t = concat (map calls_of t)"

text \<open>
  The events of a trace: a call being made, and an awaited promise settling. The promises
  of \<open>AwaitAll\<close> settle after all of its calls were made, in an order the handler does not
  fix, so that only their calls are events.
\<close>

datatype Event = Called Call | Settled Call Outcome

fun events_of :: "Step \<Rightarrow> Event list" where
  "events_of (Do c) = [Called c]"
| "events_of (Await c out) = (if out = Pending then [Called c] else [Called c, Settled c out])"
| "events_of (AwaitAll cs) = map Called cs"

definition events :: "Step list \<Rightarrow> Event list" where
  "events t = concat (map events_of t)"

text \<open>\<open>precedes a b xs\<close>: no \<open>b\<close> stands in \<open>xs\<close> before the first \<open>a\<close>.\<close>

fun precedes :: "'a \<Rightarrow> 'a \<Rightarrow> 'a list \<Rightarrow> bool" where
  "precedes a b [] = True"
| "precedes a b (x # xs) = (if x = a then True else x \<noteq> b \<and> precedes a b xs)"

subsection \<open>The collaborators\<close>

text \<open>
  What the handlers read from outside the component: whether the module-level \<^verbatim>\<open>widget\<close>
  of \<^verbatim>\<open>../widget\<close> is set, the group call's id and its \<^verbatim>\<open>participants\<close> (a
  \<^verbatim>\<open>Map\<close> from members to device maps, here each member with the keys of its device map,
  so that the map's \<^verbatim>\<open>size\<close> is the length of that list), the device list
  \<^verbatim>\<open>Room.getLocalDevices()\<close> resolves to (\<open>None\<close> when it rejects), and how the promises of
  \<^verbatim>\<open>enter()\<close> and \<^verbatim>\<open>widget.api.transport.reply\<close> settle.
\<close>

record Env =
  widget :: bool
  groupCallId :: string
  participants :: "(string \<times> string list) list"
  localDevices :: "MediaDeviceInfo list option"
  enterOutcome :: Outcome
  replyOutcome :: Outcome

subsection \<open>onJoin (lines 97 to 146)\<close>

text \<open>
  Lines 104 to 118 for \<open>medium = ''audio''\<close> and lines 120 to 134 for
  \<open>medium = ''video''\<close>: the steps taken and the entry of \<^verbatim>\<open>newChoices\<close> set, if any.
\<close>

definition resolveInput ::
  "string \<Rightarrow> JsName \<Rightarrow> MediaDeviceKind \<Rightarrow> MediaDeviceInfo list \<Rightarrow> Step list \<times> DeviceChoices option" where
  "resolveInput medium input k devices =
    (if input \<noteq> JsNull then
       (let deviceId = findDeviceByName input k devices in
        if falsy deviceId then
          ([Await (FindDeviceByName input k) Resolved,
            Do (LoggerWarn (''Unknown '' @ medium @ '' input: '' @ toString input))],
           None)
        else
          ([Await (FindDeviceByName input k) Resolved,
            Do (LoggerDebug (''Found '' @ medium @ '' input ID '' @ the deviceId @
                             '' for name '' @ toString input))],
           Some \<lparr>selectedId = the deviceId, enabled = True\<rparr>))
     else ([], None))"

definition newChoices :: "MediaDeviceInfo list \<Rightarrow> JoinCallData \<Rightarrow> UserChoices" where
  "newChoices devices data =
    \<lparr>audio = snd (resolveInput ''audio'' (audioInput data) AudioInput devices),
     video = snd (resolveInput ''video'' (videoInput data) VideoInput devices)\<rparr>"

text \<open>
  Lines 98 to 136: the steps of \<^verbatim>\<open>onJoin\<close> before \<^verbatim>\<open>enter()\<close>, given the device list
  that \<^verbatim>\<open>Room.getLocalDevices()\<close> resolved to.
\<close>

definition beforeEnter :: "MediaDeviceInfo list \<Rightarrow> JoinCallData \<Rightarrow> Step list" where
  "beforeEnter devices data =
    [Await GetLocalDevices Resolved]
    @ fst (resolveInput ''audio'' (audioInput data) AudioInput devices)
    @ fst (resolveInput ''video'' (videoInput data) VideoInput devices)
    @ [Do (SetUserChoices (newChoices devices data))]"

definition onJoin :: "Env \<Rightarrow> JoinCallData \<Rightarrow> Step list" where
  "onJoin env data =
    (case localDevices env of
       None \<Rightarrow> [Await GetLocalDevices Rejected]
     | Some devices \<Rightarrow>
         beforeEnter devices data
         @ [Await Enter (enterOutcome env)]
         @ (if enterOutcome env = Resolved then
              [Do CacheStartCall, Do (TrackCallStarted (groupCallId env)),
               AwaitAll [SetAlwaysOnScreen True, TransportReply]]
            else []))"

text \<open>
  The effect of lines 94 to 153 registers \<^verbatim>\<open>onJoin\<close> only under
  \<^verbatim>\<open>widget && preload\<close>: a JoinCall command at any other time finds no listener.
\<close>

definition handleJoinCall :: "Env \<Rightarrow> SessionViewState \<Rightarrow> JoinCallData \<Rightarrow> Step list" where
  "handleJoinCall env p data = (if widget env \<and> preload p then onJoin env data else [])"

subsection \<open>Entering without a command\<close>

text \<open>The effect of lines 155 to 163: \<^verbatim>\<open>enter()\<close> is called and not awaited.\<close>

definition embeddedEnterEffect :: "Env \<Rightarrow> SessionViewState \<Rightarrow> Step list" where
  "embeddedEnterEffect env p =
    (if isEmbedded p \<and> \<not> preload p then
       [Do Enter, Do CacheStartCall, Do (TrackCallStarted (groupCallId env))]
     else [])"

text \<open>The \<^verbatim>\<open>onEnter\<close> callback handed to \<^verbatim>\<open>LobbyView\<close>, lines 288 to 291.\<close>

definition onEnter :: "UserChoices \<Rightarrow> Step list" where
  "onEnter choices = [Do (SetUserChoices choices), Do Enter]"

subsection \<open>onLeave (lines 170 to 203) and onHangup (lines 207 to 211)\<close>

text \<open>The loop of lines 173 to 176 over \<^verbatim>\<open>groupCall.participants.values()\<close>.\<close>

fun participantCountLoop :: "nat \<Rightarrow> (string \<times> string list) list \<Rightarrow> nat" where
  "participantCountLoop participantCount [] = participantCount"
| "participantCountLoop participantCount ((member, deviceMap) # rest) =
     participantCountLoop (participantCount + length deviceMap) rest"

definition onLeave :: "Env \<Rightarrow> SessionViewState \<Rightarrow> Step list" where
  "onLeave env p =
    (let participantCount = participantCountLoop 0 (participants env);
         sendInstantly = widget env
     in [Do (SetLeft True),
         Do (TrackCallEnded (groupCallId env) participantCount sendInstantly),
         Do Leave]
        @ (if widget env then
             [Await (SetTimeout 10) Resolved, Do (SetAlwaysOnScreen False), Do Logout,
              Do (TransportSend HangupCall)]
           else [])
        @ (if \<not> isPasswordlessUser p \<and> \<not> isEmbedded p \<and> \<not> analyticsEnabled p then
             [Do (HistoryPush ''/'')]
           else []))"

definition onHangup :: "Env \<Rightarrow> Step list" where
  "onHangup env =
    [Do Leave, Await TransportReply (replyOutcome env)]
    @ (if replyOutcome env = Resolved then [Do (SetAlwaysOnScreen False)] else [])"

text \<open>
  The effect of lines 205 to 217 registers \<^verbatim>\<open>onHangup\<close> only under
  \<^verbatim>\<open>widget && state === GroupCallState.Entered\<close>.
\<close>

definition handleHangupCall :: "Env \<Rightarrow> SessionViewState \<Rightarrow> Step list" where
  "handleHangupCall env p = (if widget env \<and> state p = Entered then onHangup env else [])"

fun isCallStarted :: "Call \<Rightarrow> bool" where
  "isCallStarted (TrackCallStarted g) = True"
| "isCallStarted c = False"

fun isCallEnded :: "Call \<Rightarrow> bool" where
  "isCallEnded (TrackCallEnded g n b) = True"
| "isCallEnded c = False"

definition callStartedCount :: "Step list \<Rightarrow> nat" where
  "callStartedCount t = length (filter isCallStarted (calls t))"

definition callEndedCount :: "Step list \<Rightarrow> nat" where
  "callEndedCount t = length (filter isCallEnded (calls t))"

subsection \<open>Time\<close>

text \<open>
  A timer of \<open>ms\<close> milliseconds resolves no sooner than \<open>ms\<close> after it was set; every other
  step takes no time by itself. \<open>schedule lat i now t\<close> gives each step of \<open>t\<close> the time at
  which it starts, when the step at position \<open>j\<close> is followed by a further latency
  \<open>lat j\<close> (event-loop delay, late timers), which is arbitrary.
\<close>

fun waits :: "Step \<Rightarrow> nat" where
  "waits (Await (SetTimeout ms) Resolved) = ms"
| "waits s = 0"

fun schedule :: "(nat \<Rightarrow> nat) \<Rightarrow> nat \<Rightarrow> nat \<Rightarrow> Step list \<Rightarrow> (nat \<times> Step) list" where
  "schedule lat i now [] = []"
| "schedule lat i now (s # rest) = (now, s) # schedule lat (Suc i) (now + waits s + lat i) rest"

section \<open>VideoPreview\<close>

text \<open>
  The component \<^verbatim>\<open>VideoPreview\<close> is a function React calls once per render. What it keeps
  between renders is in its hooks (\<^verbatim>\<open>useState\<close>, \<^verbatim>\<open>useRef\<close>, the dependencies of
  \<^verbatim>\<open>useEffect\<close>); what the hooks of other modules return on a render is its environment.

  The value of \<^verbatim>\<open>useDefaultDevices()[0]\<close> (\<^verbatim>\<open>../settings/useSetting\<close>), by the two fields
  the component reads.
\<close>

record DefaultDevices =
  audioinput :: "string option"
  videoinput :: "string option"

text \<open>A local track of livekit-client: its \<^verbatim>\<open>kind\<close> and what \<^verbatim>\<open>getDeviceId()\<close> resolves to.\<close>

datatype TrackKind = Audio | Video | Unknown

record LocalTrack =
  trackKind :: TrackKind
  trackDeviceId :: "string option"

text \<open>
  One render's environment: the current default devices, the result of
  \<^verbatim>\<open>usePreviewTracks\<close> (\<^verbatim>\<open>undefined\<close> until the tracks exist), \<^verbatim>\<open>videoIn.selectedId\<close> and
  \<^verbatim>\<open>audioIn.selectedId\<close> of the device switcher, and the identity of the callback prop
  \<^verbatim>\<open>onUserChoicesChanged\<close>.
\<close>

record PreviewEnv =
  defaultDevices :: DefaultDevices
  tracks :: "LocalTrack list option"
  videoInSelectedId :: "string option"
  audioInSelectedId :: "string option"
  onUserChoicesChanged :: nat

text \<open>
  The dependency array of the effect of lines 107 to 130, and the hooks' state: the
  \<^verbatim>\<open>current\<close> of the ref \<^verbatim>\<open>initialDefaultDevices\<close> (\<open>None\<close> before the first render), the
  two \<^verbatim>\<open>useState\<close> flags, and the dependencies the effect last ran with.
\<close>

type_synonym EffectDeps = "nat \<times> string option \<times> bool \<times> string option \<times> bool"

record PreviewHooks =
  initialDefaultDevices :: "DefaultDevices option"
  videoEnabled :: bool
  audioEnabled :: bool
  choicesEffectDeps :: "EffectDeps option"

text \<open>
  \<^verbatim>\<open>useRef(initialValue).current\<close>: the initial value on the first render, the stored value
  on every later one (the component never assigns to it). An effect runs after a render when
  it never ran or one of its dependencies differs from the last run's.
\<close>

definition useRef :: "'a option \<Rightarrow> 'a \<Rightarrow> 'a" where
  "useRef stored initialValue = (case stored of None \<Rightarrow> initialValue | Some current \<Rightarrow> current)"

definition depsChanged :: "'d option \<Rightarrow> 'd \<Rightarrow> bool" where
  "depsChanged previous deps = (previous \<noteq> Some deps)"

text \<open>\<^verbatim>\<open>tracks?.filter((t) => t.kind === k)[0]\<close>, lines 82 to 91.\<close>

definition trackOfKind :: "TrackKind \<Rightarrow> LocalTrack list option \<Rightarrow> LocalTrack option" where
  "trackOfKind k ts =
    (case ts of
       None \<Rightarrow> None
     | Some l \<Rightarrow> (case filter (\<lambda>t. trackKind t = k) l of [] \<Rightarrow> None | t # rest \<Rightarrow> Some t))"

text \<open>\<^verbatim>\<open>createChoices\<close>, lines 109 to 119.\<close>

definition createChoices :: "bool \<Rightarrow> string option \<Rightarrow> DeviceChoices option" where
  "createChoices enabled' deviceId' =
    (if \<not> falsy deviceId' then Some \<lparr>selectedId = the deviceId', enabled = enabled'\<rparr>
     else None)"

text \<open>The dependency array of lines 124 to 130, on a render.\<close>

definition depsOf :: "PreviewHooks \<Rightarrow> PreviewEnv \<Rightarrow> EffectDeps" where
  "depsOf h env = (onUserChoicesChanged env, videoInSelectedId env, videoEnabled h,
                   audioInSelectedId env, audioEnabled h)"

text \<open>
  What a render does, as far as the theorems below read it: the device ids handed to
  \<^verbatim>\<open>usePreviewTracks\<close> (lines 73 to 77), the flag \<^verbatim>\<open>requestPermissions\<close> handed to
  \<^verbatim>\<open>useMediaDevicesSwitcher\<close> (line 94), and the calls of \<^verbatim>\<open>onUserChoicesChanged\<close> made by
  the effect of lines 107 to 130. The effects that select the track's device in the
  switcher and attach the video element are not part of the model.
\<close>

record PreviewRender =
  previewAudioDeviceId :: "string option"
  previewVideoDeviceId :: "string option"
  requestPermissions :: bool
  emittedChoices :: "UserChoices list"

definition VideoPreview :: "PreviewHooks \<Rightarrow> PreviewEnv \<Rightarrow> PreviewHooks \<times> PreviewRender" where
  "VideoPreview h env =
    (let initialDefaultDevices_current = useRef (initialDefaultDevices h) (defaultDevices env);
         videoTrack = trackOfKind Video (tracks env);
         audioTrack = trackOfKind Audio (tracks env);
         deps = depsOf h env
     in (h\<lparr>initialDefaultDevices := Some initialDefaultDevices_current,
           choicesEffectDeps := Some deps\<rparr>,
         \<lparr>previewAudioDeviceId = audioinput initialDefaultDevices_current,
          previewVideoDeviceId = videoinput initialDefaultDevices_current,
          requestPermissions = (videoTrack \<noteq> None),
          emittedChoices =
            (if depsChanged (choicesEffectDeps h) deps then
               [\<lparr>audio = createChoices (audioEnabled h) (audioInSelectedId env),
                 video = createChoices (videoEnabled h) (videoInSelectedId env)\<rparr>]
             else [])\<rparr>))"

text \<open>
  Between two renders the user may press the microphone or the video button (lines 175 to
  182), which toggles the flag; or the component is rendered again for another reason.
\<close>

datatype PreviewAction = Rerender | PressMicButton | PressVideoButton

fun press :: "PreviewAction \<Rightarrow> PreviewHooks \<Rightarrow> PreviewHooks" where
  "press Rerender h = h"
| "press PressMicButton h = h\<lparr>audioEnabled := \<not> audioEnabled h\<rparr>"
| "press PressVideoButton h = h\<lparr>videoEnabled := \<not> videoEnabled h\<rparr>"

text \<open>
  The hooks before the first render, the renders of a mounted component given what happens
  before each, and the lifetime of one instance: the first render and those that follow.
\<close>

definition mounting :: PreviewHooks where
  "mounting = \<lparr>initialDefaultDevices = None, videoEnabled = True, audioEnabled = True,
               choicesEffectDeps = None\<rparr>"

fun renders ::
  "PreviewHooks \<Rightarrow> (PreviewAction \<times> PreviewEnv) list \<Rightarrow> (PreviewHooks \<times> PreviewRender) list" where
  "renders h [] = []"
| "renders h ((a, env) # rest) =
     (let r = VideoPreview (press a h) env in r # renders (fst r) rest)"

definition lifetime ::
  "PreviewEnv \<Rightarrow> (PreviewAction \<times> PreviewEnv) list \<Rightarrow> (PreviewHooks \<times> PreviewRender) list" where
  "lifetime env0 steps = renders mounting ((Rerender, env0) # steps)"

text \<open>
  Modelled from the spec: \<^verbatim>\<open>useMediaDevicesSwitcher\<close> is imported from
  \<^verbatim>\<open>../livekit/useMediaDevicesSwitcher\<close>, which is not among the sources. The specification
  has the switcher request device-enumeration permissions only if it is allowed to, by the
  flag it is handed: on a render it makes \<open>n\<close> requests when allowed and none otherwise.
\<close>

definition switcherPermissionRequests :: "nat \<Rightarrow> bool \<Rightarrow> nat" where
  "switcherPermissionRequests n allowed = (if allowed then n else 0)"

definition permissionRequests :: "nat \<Rightarrow> (PreviewHooks \<times> PreviewRender) list \<Rightarrow> nat" where
  "permissionRequests n rs =
     sum_list (map (\<lambda>r. switcherPermissionRequests n (requestPermissions (snd r))) rs)"

text \<open>A video track is available: the tracks exist and one of them is of kind video.\<close>

definition hasVideoTrack :: "PreviewEnv \<Rightarrow> bool" where
  "hasVideoTrack env = (case tracks env of None \<Rightarrow> False | Some l \<Rightarrow> list_ex (\<lambda>t. trackKind t = Video) l)"

text \<open>
  The specification's words for an emission: an entry is absent when its device id is
  unresolved, and otherwise pairs the resolved id with the enabled flag; both entries are
  computed from the current state.
\<close>

definition spec_entry :: "bool \<Rightarrow> string option \<Rightarrow> DeviceChoices option" where
  "spec_entry flag resolved =
    (case resolved of
       None \<Rightarrow> None
     | Some i \<Rightarrow> if i = [] then None else Some \<lparr>selectedId = i, enabled = flag\<rparr>)"

definition spec_choices :: "PreviewHooks \<Rightarrow> PreviewEnv \<Rightarrow> UserChoices" where
  "spec_choices h env =
    \<lparr>audio = spec_entry (audioEnabled h) (audioInSelectedId env),
     video = spec_entry (videoEnabled h) (videoInSelectedId env)\<rparr>"

text \<open>All calls of \<^verbatim>\<open>onUserChoicesChanged\<close> over a sequence of renders, in order.\<close>

definition emissions :: "(PreviewHooks \<times> PreviewRender) list \<Rightarrow> UserChoices list" where
  "emissions rs = concat (map (\<lambda>r. emittedChoices (snd r)) rs)"

section \<open>Example inputs\<close>

text \<open>
  The device list and the payload of the specification's scenario B, a session running as
  a widget whose \<^verbatim>\<open>enter()\<close> settles as given, and a render of the component.
\<close>

definition scenarioB_devices :: "MediaDeviceInfo list" where
  "scenarioB_devices = [\<lparr>deviceId = ''mic-1'', kind = AudioInput, label = ''Built-in Mic''\<rparr>]"

definition scenarioB_payload :: JoinCallData where
  "scenarioB_payload = \<lparr>audioInput = JsString ''Built-in Mic'', videoInput = JsNull\<rparr>"

definition widgetEnv :: "Outcome \<Rightarrow> Env" where
  "widgetEnv out =
    \<lparr>widget = True, groupCallId = ''call-1'',
     participants = [(''@alice:example.org'', [''DEVA1'', ''DEVA2'']), (''@bob:example.org'', [''DEVB1''])],
     localDevices = Some scenarioB_devices, enterOutcome = out, replyOutcome = Resolved\<rparr>"

definition sessionState :: "bool \<Rightarrow> bool \<Rightarrow> GroupCallState \<Rightarrow> SessionViewState" where
  "sessionState emb pre st =
    \<lparr>fociLivekitServiceUrl = None, configLivekitServiceUrl = Some ''https://lk.example'',
     error = None, state = st, userChoices = None, left = False, preload = pre,
     isEmbedded = emb, isPasswordlessUser = False, analyticsEnabled = False\<rparr>"

text \<open>
  Two environments of a render: before the tracks exist, and with both tracks, the switcher's
  selection resolved and the default devices changed.
\<close>

definition envA :: PreviewEnv where
  "envA = \<lparr>defaultDevices = \<lparr>audioinput = Some ''mic-1'', videoinput = Some ''cam-1''\<rparr>,
      tracks = None, videoInSelectedId = None, audioInSelectedId = None, onUserChoicesChanged = 0\<rparr>"

definition envB :: PreviewEnv where
  "envB = \<lparr>defaultDevices = \<lparr>audioinput = Some ''mic-2'', videoinput = Some ''cam-2''\<rparr>,
      tracks = Some [\<lparr>trackKind = Audio, trackDeviceId = Some ''mic-1''\<rparr>,
                     \<lparr>trackKind = Video, trackDeviceId = Some ''cam-1''\<rparr>],
      videoInSelectedId = Some ''cam-1'', audioInSelectedId = Some ''mic-1'', onUserChoicesChanged = 0\<rparr>"

section \<open>Theorems\<close>

subsection \<open>View selection\<close>

lemma first_match_Cons_Some: "r x = Some v \<Longrightarrow> first_match (r # rs) x = Some v"
  by simp

lemma first_match_Cons_None: "r x = None \<Longrightarrow> first_match (r # rs) x = first_match rs x"
  by simp

lemma GroupCallView_refines_table: "spec_view_selection p = Some (GroupCallView p)"
proof (cases "livekitServiceURL p")
  case None
  then show ?thesis
    by (simp add: spec_view_selection_def spec_rule_no_url_def GroupCallView_def falsy_def)
next
  case (Some u)
  note url = this
  show ?thesis
  proof (cases "u = []")
    case True
    with url show ?thesis
      by (simp add: spec_view_selection_def spec_rule_no_url_def GroupCallView_def falsy_def)
  next
    case False
    with url have r1: "spec_rule_no_url p = None" and nf: "\<not> falsy (livekitServiceURL p)"
      by (simp_all add: spec_rule_no_url_def falsy_def)
    show ?thesis
    proof (cases "error p")
      case (Some e)
      with r1 nf show ?thesis
        by (simp add: spec_view_selection_def spec_rule_error_def GroupCallView_def)
    next
      case None
      then have r2: "spec_rule_error p = None"
        by (simp add: spec_rule_error_def)
      show ?thesis
      proof (cases "state p = Entered \<and> userChoices p \<noteq> None")
        case True
        then obtain c where "state p = Entered" "userChoices p = Some c"
          by auto
        with r1 r2 nf None url show ?thesis
          by (simp add: spec_view_selection_def spec_rule_entered_def GroupCallView_def)
      next
        case False
        then have r3: "spec_rule_entered p = None"
          by (auto simp: spec_rule_entered_def split: GroupCallState.splits option.splits)
        from r1 r2 r3 nf None False show ?thesis
          by (simp add: spec_view_selection_def GroupCallView_def spec_rule_left_def
              spec_rule_preload_def spec_rule_embedded_def spec_rule_otherwise_def)
      qed
    qed
  qed
qed

text \<open>
  C1. For every input state the view \<^verbatim>\<open>GroupCallView\<close> returns is the view of the first
  matching rule of the specification's table (no service URL, error, entered with user
  choices, left, preload, embedded, otherwise the lobby); and whenever an error is present,
  the state is \<^verbatim>\<open>Entered\<close> and user choices are present, the view is an error view and
  not the active call.
\<close>

theorem view_selection_first_match:
  "spec_view_selection p = Some (GroupCallView p) \<and>
   (error p = Some e \<and> state p = Entered \<and> userChoices p = Some c \<longrightarrow>
      isErrorView (GroupCallView p) \<and> \<not> isActiveCall (GroupCallView p))"
proof
  show "spec_view_selection p = Some (GroupCallView p)"
    by (rule GroupCallView_refines_table)
next
  show "error p = Some e \<and> state p = Entered \<and> userChoices p = Some c \<longrightarrow>
      isErrorView (GroupCallView p) \<and> \<not> isActiveCall (GroupCallView p)"
    by (simp add: GroupCallView_def)
qed

theorem view_selection_first_match_witness:
  "spec_view_selection
     \<lparr>fociLivekitServiceUrl = None, configLivekitServiceUrl = Some ''https://lk.example'',
      error = Some (Error ''boom''), state = Entered,
      userChoices = Some \<lparr>audio = None, video = None\<rparr>,
      left = False, preload = False, isEmbedded = False, isPasswordlessUser = False,
      analyticsEnabled = False\<rparr> = Some (ErrorView (Error ''boom''))"
  using view_selection_first_match
    [of "\<lparr>fociLivekitServiceUrl = None, configLivekitServiceUrl = Some ''https://lk.example'',
      error = Some (Error ''boom''), state = Entered,
      userChoices = Some \<lparr>audio = None, video = None\<rparr>,
      left = False, preload = False, isEmbedded = False, isPasswordlessUser = False,
      analyticsEnabled = False\<rparr>" "Error ''boom''" "\<lparr>audio = None, video = None\<rparr>"]
  by (simp add: GroupCallView_def falsy_def livekitServiceURL_def nullish_def)

subsection \<open>Traces of the handlers\<close>

lemma precedes_append:
  "b \<notin> set xs \<Longrightarrow> precedes a b (xs @ ys) = (a \<in> set xs \<or> precedes a b ys)"
  by (induction xs) auto

lemma events_append: "events (s @ t) = events s @ events t"
  by (simp add: events_def)

lemma events_Cons: "events (s # t) = events_of s @ events t"
  by (simp add: events_def)

lemma events_Nil: "events [] = []"
  by (simp add: events_def)

lemma calls_append: "calls (s @ t) = calls s @ calls t"
  by (simp add: calls_def)

lemma calls_Cons: "calls (s # t) = calls_of s @ calls t"
  by (simp add: calls_def)

lemma calls_Nil: "calls [] = []"
  by (simp add: calls_def)

lemma resolveInput_calls:
  "c \<in> set (calls (fst (resolveInput medium input k devices))) \<Longrightarrow>
     c = FindDeviceByName input k \<or> (\<exists>m. c = LoggerWarn m) \<or> (\<exists>m. c = LoggerDebug m)"
  by (auto simp: resolveInput_def Let_def calls_Cons calls_Nil split: if_splits)

lemma resolveInput_events:
  "e \<in> set (events (fst (resolveInput medium input k devices))) \<Longrightarrow>
     e = Called (FindDeviceByName input k) \<or> e = Settled (FindDeviceByName input k) Resolved \<or>
     (\<exists>m. e = Called (LoggerWarn m)) \<or> (\<exists>m. e = Called (LoggerDebug m))"
  by (auto simp: resolveInput_def Let_def events_Cons events_Nil split: if_splits)

lemma beforeEnter_calls:
  "c \<in> set (calls (beforeEnter devices data)) \<Longrightarrow>
     c \<noteq> TransportReply \<and> c \<noteq> Enter \<and> \<not> isCallStarted c"
  by (auto simp: beforeEnter_def calls_append calls_Cons calls_Nil dest!: resolveInput_calls)

lemma beforeEnter_events:
  "e \<in> set (events (beforeEnter devices data)) \<Longrightarrow>
     e \<noteq> Called TransportReply \<and> e \<noteq> Called Enter \<and> e \<noteq> Settled Enter Resolved"
  by (auto simp: beforeEnter_def events_append events_Cons events_Nil dest!: resolveInput_events)

lemma onJoin_Some:
  "localDevices env = Some devices \<Longrightarrow>
   onJoin env data = beforeEnter devices data @ Await Enter (enterOutcome env) #
     (if enterOutcome env = Resolved then
        [Do CacheStartCall, Do (TrackCallStarted (groupCallId env)),
         AwaitAll [SetAlwaysOnScreen True, TransportReply]]
      else [])"
  by (simp add: onJoin_def)

lemma onJoin_None: "localDevices env = None \<Longrightarrow> onJoin env data = [Await GetLocalDevices Rejected]"
  by (simp add: onJoin_def)

lemma onJoin_settled_precedes:
  "precedes (Settled Enter Resolved) (Called TransportReply) (events (onJoin env data))"
proof (cases "localDevices env")
  case None
  then show ?thesis by (simp add: onJoin_None events_Cons events_Nil)
next
  case (Some devices)
  have nb: "Called TransportReply \<notin> set (events (beforeEnter devices data))"
    using beforeEnter_events by blast
  have na: "Settled Enter Resolved \<notin> set (events (beforeEnter devices data))"
    using beforeEnter_events by blast
  show ?thesis
    by (cases "enterOutcome env")
      (simp_all add: onJoin_Some [OF Some] events_append events_Cons events_Nil
        precedes_append [OF nb] na)
qed

lemma onJoin_called_precedes:
  "precedes (Called Enter) (Called TransportReply) (events (onJoin env data))"
proof (cases "localDevices env")
  case None
  then show ?thesis by (simp add: onJoin_None events_Cons events_Nil)
next
  case (Some devices)
  have nb: "Called TransportReply \<notin> set (events (beforeEnter devices data))"
    using beforeEnter_events by blast
  show ?thesis
    by (cases "enterOutcome env")
      (simp_all add: onJoin_Some [OF Some] events_append events_Cons events_Nil
        precedes_append [OF nb])
qed

lemma onJoin_not_resolved:
  assumes "enterOutcome env \<noteq> Resolved" and "c \<in> set (calls (onJoin env data))"
  shows "c \<noteq> TransportReply \<and> \<not> isCallStarted c"
proof (cases "localDevices env")
  case None
  with assms show ?thesis
    by (auto simp: onJoin_None calls_Cons calls_Nil)
next
  case (Some devices)
  with assms show ?thesis
    by (auto simp: onJoin_Some [OF Some] calls_append calls_Cons calls_Nil
        dest: beforeEnter_calls)
qed

text \<open>
  C2. In the handler of the JoinCall command, no reply is sent before the promise of
  \<^verbatim>\<open>enter()\<close> has resolved (nor before \<^verbatim>\<open>enter()\<close> was called), and none at all when it
  does not resolve. When the command is received with the widget API present, in preload
  mode, the device list is obtained and \<^verbatim>\<open>enter()\<close> resolves, the handler ends with:
  \<^verbatim>\<open>enter()\<close> resolved, the start of the call cached and tracked, and then
  \<^verbatim>\<open>setAlwaysOnScreen(true)\<close> and the reply started together under one
  \<^verbatim>\<open>Promise.all\<close>; nothing before that replies, enters or tracks.
\<close>

theorem join_reply_after_enter:
  "precedes (Settled Enter Resolved) (Called TransportReply) (events (handleJoinCall env p data)) \<and>
   precedes (Called Enter) (Called TransportReply) (events (handleJoinCall env p data)) \<and>
   (enterOutcome env \<noteq> Resolved \<longrightarrow> TransportReply \<notin> set (calls (handleJoinCall env p data))) \<and>
   (widget env \<and> preload p \<and> localDevices env \<noteq> None \<and> enterOutcome env = Resolved \<longrightarrow>
     (\<exists>before. handleJoinCall env p data =
        before @ [Await Enter Resolved, Do CacheStartCall, Do (TrackCallStarted (groupCallId env)),
                  AwaitAll [SetAlwaysOnScreen True, TransportReply]] \<and>
        TransportReply \<notin> set (calls before) \<and> Enter \<notin> set (calls before) \<and>
        callStartedCount before = 0))"
proof (intro conjI impI)
  show "precedes (Settled Enter Resolved) (Called TransportReply)
          (events (handleJoinCall env p data))"
    by (simp add: handleJoinCall_def onJoin_settled_precedes events_Nil)
  show "precedes (Called Enter) (Called TransportReply) (events (handleJoinCall env p data))"
    by (simp add: handleJoinCall_def onJoin_called_precedes events_Nil)
  show "TransportReply \<notin> set (calls (handleJoinCall env p data))"
    if "enterOutcome env \<noteq> Resolved"
    using that onJoin_not_resolved [of env _ data] by (auto simp: handleJoinCall_def calls_Nil)
  show "\<exists>before. handleJoinCall env p data =
        before @ [Await Enter Resolved, Do CacheStartCall, Do (TrackCallStarted (groupCallId env)),
                  AwaitAll [SetAlwaysOnScreen True, TransportReply]] \<and>
        TransportReply \<notin> set (calls before) \<and> Enter \<notin> set (calls before) \<and>
        callStartedCount before = 0"
    if h: "widget env \<and> preload p \<and> localDevices env \<noteq> None \<and> enterOutcome env = Resolved"
  proof -
    from h obtain devices where d: "localDevices env = Some devices" by auto
    have "handleJoinCall env p data = beforeEnter devices data @
        [Await Enter Resolved, Do CacheStartCall, Do (TrackCallStarted (groupCallId env)),
         AwaitAll [SetAlwaysOnScreen True, TransportReply]]"
      using h by (simp add: handleJoinCall_def onJoin_Some [OF d])
    moreover have "TransportReply \<notin> set (calls (beforeEnter devices data))"
      "Enter \<notin> set (calls (beforeEnter devices data))"
      using beforeEnter_calls by blast+
    moreover have "callStartedCount (beforeEnter devices data) = 0"
      using beforeEnter_calls by (auto simp: callStartedCount_def filter_empty_conv)
    ultimately show ?thesis by blast
  qed
qed

theorem join_reply_after_enter_witness:
  "(\<exists>before. handleJoinCall (widgetEnv Resolved) (sessionState True True LocalCallFeedUninitialized) scenarioB_payload =
        before @ [Await Enter Resolved, Do CacheStartCall, Do (TrackCallStarted ''call-1''),
                  AwaitAll [SetAlwaysOnScreen True, TransportReply]] \<and>
        TransportReply \<notin> set (calls before) \<and> Enter \<notin> set (calls before) \<and>
        callStartedCount before = 0) \<and>
   TransportReply \<notin> set (calls (handleJoinCall (widgetEnv Rejected) (sessionState True True LocalCallFeedUninitialized) scenarioB_payload))"
  using join_reply_after_enter [of "widgetEnv Resolved" "sessionState True True LocalCallFeedUninitialized" scenarioB_payload]
    join_reply_after_enter [of "widgetEnv Rejected" "sessionState True True LocalCallFeedUninitialized" scenarioB_payload]
  by (simp add: widgetEnv_def sessionState_def)

subsection \<open>Device names of the JoinCall payload\<close>

lemma findDeviceByName_None:
  "\<forall>d\<in>set devices. \<not> (kind d = k \<and> JsString (label d) = input) \<Longrightarrow> findDeviceByName input k devices = None"
  by (cases input) (auto simp: findDeviceByName_def find_None_iff)

lemma findDeviceByName_Some:
  assumes "d \<in> set devices" "kind d = k" "label d = n"
    and "\<forall>d'\<in>set devices. kind d' = k \<and> label d' = n \<longrightarrow> deviceId d' = i"
  shows "findDeviceByName (JsString n) k devices = Some i"
proof -
  from assms(1-3) have "find (\<lambda>d. kind d = k \<and> label d = n) devices \<noteq> None"
    by (auto simp: find_None_iff)
  then obtain d' where f: "find (\<lambda>d. kind d = k \<and> label d = n) devices = Some d'"
    by auto
  then have "d' \<in> set devices \<and> kind d' = k \<and> label d' = n"
    by (auto simp: find_Some_iff)
  with assms(4) have "deviceId d' = i" by blast
  with f show ?thesis by (simp add: findDeviceByName_def)
qed

lemma resolveInput_unknown:
  assumes "input \<noteq> JsNull" and "\<forall>d\<in>set devices. \<not> (kind d = k \<and> JsString (label d) = input)"
  shows "resolveInput medium input k devices =
    ([Await (FindDeviceByName input k) Resolved,
      Do (LoggerWarn (''Unknown '' @ medium @ '' input: '' @ toString input))], None)"
  using assms by (simp add: resolveInput_def findDeviceByName_None falsy_def)

lemma in_beforeEnter_in_onJoin:
  "localDevices env = Some devices \<Longrightarrow> s \<in> set (beforeEnter devices data) \<Longrightarrow> s \<in> set (onJoin env data)"
  by (simp add: onJoin_Some)

text \<open>
  C9. Whenever the device list was obtained: a JoinCall payload whose audio (or video) input
  is not \<^verbatim>\<open>null\<close> and is the label of no enumerated device of that kind has the name logged
  as unknown and the audio (or video) entry left out of the user choices; the choices are
  stored and \<^verbatim>\<open>enter()\<close> is called all the same, and the reply is sent when \<^verbatim>\<open>enter()\<close>
  resolves. For the payload with audio input "Built-in Mic" and video input \<^verbatim>\<open>null\<close>,
  against a device list in which the audio input labelled "Built-in Mic" has the id "mic-1",
  the user choices are the audio entry with id "mic-1", enabled, and no video entry.
\<close>

theorem unknown_device_name_tolerated:
  assumes dev: "localDevices env = Some devices"
  shows
  "(audioInput data \<noteq> JsNull \<and>
      (\<forall>d\<in>set devices. \<not> (kind d = AudioInput \<and> JsString (label d) = audioInput data)) \<longrightarrow>
        Do (LoggerWarn (''Unknown audio input: '' @ toString (audioInput data))) \<in> set (onJoin env data) \<and>
        audio (newChoices devices data) = None) \<and>
   (videoInput data \<noteq> JsNull \<and>
      (\<forall>d\<in>set devices. \<not> (kind d = VideoInput \<and> JsString (label d) = videoInput data)) \<longrightarrow>
        Do (LoggerWarn (''Unknown video input: '' @ toString (videoInput data))) \<in> set (onJoin env data) \<and>
        video (newChoices devices data) = None) \<and>
   Do (SetUserChoices (newChoices devices data)) \<in> set (onJoin env data) \<and>
   Enter \<in> set (calls (onJoin env data)) \<and>
   (enterOutcome env = Resolved \<longrightarrow> TransportReply \<in> set (calls (onJoin env data))) \<and>
   (\<lparr>deviceId = ''mic-1'', kind = AudioInput, label = ''Built-in Mic''\<rparr> \<in> set devices \<and>
    (\<forall>d\<in>set devices. kind d = AudioInput \<and> label d = ''Built-in Mic'' \<longrightarrow> deviceId d = ''mic-1'') \<and>
    data = \<lparr>audioInput = JsString ''Built-in Mic'', videoInput = JsNull\<rparr> \<longrightarrow>
      newChoices devices data = \<lparr>audio = Some \<lparr>selectedId = ''mic-1'', enabled = True\<rparr>, video = None\<rparr>)"
proof (intro conjI impI)
  show "Do (LoggerWarn (''Unknown audio input: '' @ toString (audioInput data))) \<in> set (onJoin env data)"
    if "audioInput data \<noteq> JsNull \<and>
      (\<forall>d\<in>set devices. \<not> (kind d = AudioInput \<and> JsString (label d) = audioInput data))"
    using that by (intro in_beforeEnter_in_onJoin [OF dev]) (simp add: beforeEnter_def resolveInput_unknown)
  show "audio (newChoices devices data) = None"
    if "audioInput data \<noteq> JsNull \<and>
      (\<forall>d\<in>set devices. \<not> (kind d = AudioInput \<and> JsString (label d) = audioInput data))"
    using that by (simp add: newChoices_def resolveInput_unknown)
  show "Do (LoggerWarn (''Unknown video input: '' @ toString (videoInput data))) \<in> set (onJoin env data)"
    if "videoInput data \<noteq> JsNull \<and>
      (\<forall>d\<in>set devices. \<not> (kind d = VideoInput \<and> JsString (label d) = videoInput data))"
    using that by (intro in_beforeEnter_in_onJoin [OF dev]) (simp add: beforeEnter_def resolveInput_unknown)
  show "video (newChoices devices data) = None"
    if "videoInput data \<noteq> JsNull \<and>
      (\<forall>d\<in>set devices. \<not> (kind d = VideoInput \<and> JsString (label d) = videoInput data))"
    using that by (simp add: newChoices_def resolveInput_unknown)
  show "Do (SetUserChoices (newChoices devices data)) \<in> set (onJoin env data)"
    by (intro in_beforeEnter_in_onJoin [OF dev]) (simp add: beforeEnter_def)
  show "Enter \<in> set (calls (onJoin env data))"
    by (simp add: onJoin_Some [OF dev] calls_append calls_Cons)
  show "TransportReply \<in> set (calls (onJoin env data))" if "enterOutcome env = Resolved"
    using that by (simp add: onJoin_Some [OF dev] calls_append calls_Cons calls_Nil)
  show "newChoices devices data = \<lparr>audio = Some \<lparr>selectedId = ''mic-1'', enabled = True\<rparr>, video = None\<rparr>"
    if h: "\<lparr>deviceId = ''mic-1'', kind = AudioInput, label = ''Built-in Mic''\<rparr> \<in> set devices \<and>
    (\<forall>d\<in>set devices. kind d = AudioInput \<and> label d = ''Built-in Mic'' \<longrightarrow> deviceId d = ''mic-1'') \<and>
    data = \<lparr>audioInput = JsString ''Built-in Mic'', videoInput = JsNull\<rparr>"
  proof -
    have "findDeviceByName (JsString ''Built-in Mic'') AudioInput devices = Some ''mic-1''"
      using h by (intro findDeviceByName_Some [of "\<lparr>deviceId = ''mic-1'', kind = AudioInput, label = ''Built-in Mic''\<rparr>"]) simp_all
    with h show ?thesis
      by (simp add: newChoices_def resolveInput_def falsy_def)
  qed
qed

theorem unknown_device_name_tolerated_witness:
  "Do (LoggerWarn ''Unknown audio input: USB Mic'') \<in>
      set (onJoin (widgetEnv Resolved) \<lparr>audioInput = JsString ''USB Mic'', videoInput = JsString ''Webcam''\<rparr>) \<and>
   Do (LoggerWarn ''Unknown video input: Webcam'') \<in>
      set (onJoin (widgetEnv Resolved) \<lparr>audioInput = JsString ''USB Mic'', videoInput = JsString ''Webcam''\<rparr>) \<and>
   Do (SetUserChoices \<lparr>audio = None, video = None\<rparr>) \<in>
      set (onJoin (widgetEnv Resolved) \<lparr>audioInput = JsString ''USB Mic'', videoInput = JsString ''Webcam''\<rparr>) \<and>
   Enter \<in> set (calls (onJoin (widgetEnv Resolved) \<lparr>audioInput = JsString ''USB Mic'', videoInput = JsString ''Webcam''\<rparr>)) \<and>
   TransportReply \<in> set (calls (onJoin (widgetEnv Resolved) \<lparr>audioInput = JsString ''USB Mic'', videoInput = JsString ''Webcam''\<rparr>)) \<and>
   newChoices scenarioB_devices scenarioB_payload =
      \<lparr>audio = Some \<lparr>selectedId = ''mic-1'', enabled = True\<rparr>, video = None\<rparr>"
  using unknown_device_name_tolerated
      [of "widgetEnv Resolved" scenarioB_devices
          "\<lparr>audioInput = JsString ''USB Mic'', videoInput = JsString ''Webcam''\<rparr>"]
    unknown_device_name_tolerated [of "widgetEnv Resolved" scenarioB_devices scenarioB_payload]
  by (simp add: widgetEnv_def scenarioB_devices_def scenarioB_payload_def newChoices_def
      resolveInput_def findDeviceByName_def falsy_def)

lemma resolveInput_undefined:
  "resolveInput medium JsUndefined k devices =
    ([Await (FindDeviceByName JsUndefined k) Resolved,
      Do (LoggerWarn (''Unknown '' @ medium @ '' input: undefined''))], None)"
  by (simp add: resolveInput_def findDeviceByName_def falsy_def)

lemma resolveInput_skipped: "fst (resolveInput medium input k devices) = [] \<longleftrightarrow> input = JsNull"
  by (simp add: resolveInput_def Let_def)

text \<open>
  C10. The lookup of a device name is skipped exactly when the payload's field is
  \<^verbatim>\<open>null\<close>. When the field is missing (\<^verbatim>\<open>undefined\<close>), the handler still looks the name
  \<^verbatim>\<open>undefined\<close> up, which matches no device, logs "Unknown ... input: undefined" and leaves
  the entry out of the user choices; when it is \<^verbatim>\<open>null\<close>, there is no lookup and no
  warning, and the entry is left out as well.
\<close>

theorem null_versus_undefined_input:
  assumes dev: "localDevices env = Some devices"
  shows
  "(fst (resolveInput ''audio'' (audioInput data) AudioInput devices) = [] \<longleftrightarrow> audioInput data = JsNull) \<and>
   (fst (resolveInput ''video'' (videoInput data) VideoInput devices) = [] \<longleftrightarrow> videoInput data = JsNull) \<and>
   (audioInput data = JsUndefined \<longrightarrow>
      FindDeviceByName JsUndefined AudioInput \<in> set (calls (onJoin env data)) \<and>
      findDeviceByName JsUndefined AudioInput devices = None \<and>
      LoggerWarn ''Unknown audio input: undefined'' \<in> set (calls (onJoin env data)) \<and>
      audio (newChoices devices data) = None) \<and>
   (videoInput data = JsUndefined \<longrightarrow>
      FindDeviceByName JsUndefined VideoInput \<in> set (calls (onJoin env data)) \<and>
      findDeviceByName JsUndefined VideoInput devices = None \<and>
      LoggerWarn ''Unknown video input: undefined'' \<in> set (calls (onJoin env data)) \<and>
      video (newChoices devices data) = None) \<and>
   (audioInput data = JsNull \<longrightarrow>
      FindDeviceByName JsNull AudioInput \<notin> set (calls (onJoin env data)) \<and>
      LoggerWarn ''Unknown audio input: null'' \<notin> set (calls (onJoin env data)) \<and>
      audio (newChoices devices data) = None) \<and>
   (videoInput data = JsNull \<longrightarrow>
      FindDeviceByName JsNull VideoInput \<notin> set (calls (onJoin env data)) \<and>
      LoggerWarn ''Unknown video input: null'' \<notin> set (calls (onJoin env data)) \<and>
      video (newChoices devices data) = None)"
proof (intro conjI impI)
  show "fst (resolveInput ''audio'' (audioInput data) AudioInput devices) = [] \<longleftrightarrow> audioInput data = JsNull"
    by (rule resolveInput_skipped)
  show "fst (resolveInput ''video'' (videoInput data) VideoInput devices) = [] \<longleftrightarrow> videoInput data = JsNull"
    by (rule resolveInput_skipped)
  show "findDeviceByName JsUndefined AudioInput devices = None"
    "findDeviceByName JsUndefined VideoInput devices = None"
    by (simp_all add: findDeviceByName_def)
  show "FindDeviceByName JsUndefined AudioInput \<in> set (calls (onJoin env data))"
    if "audioInput data = JsUndefined"
    using that by (simp add: onJoin_Some [OF dev] beforeEnter_def resolveInput_undefined
        calls_append calls_Cons)
  show "LoggerWarn ''Unknown audio input: undefined'' \<in> set (calls (onJoin env data))"
    if "audioInput data = JsUndefined"
    using that by (simp add: onJoin_Some [OF dev] beforeEnter_def resolveInput_undefined
        calls_append calls_Cons)
  show "audio (newChoices devices data) = None" if "audioInput data = JsUndefined"
    using that by (simp add: newChoices_def resolveInput_undefined)
  show "FindDeviceByName JsUndefined VideoInput \<in> set (calls (onJoin env data))"
    if "videoInput data = JsUndefined"
    using that by (simp add: onJoin_Some [OF dev] beforeEnter_def resolveInput_undefined
        calls_append calls_Cons)
  show "LoggerWarn ''Unknown video input: undefined'' \<in> set (calls (onJoin env data))"
    if "videoInput data = JsUndefined"
    using that by (simp add: onJoin_Some [OF dev] beforeEnter_def resolveInput_undefined
        calls_append calls_Cons)
  show "video (newChoices devices data) = None" if "videoInput data = JsUndefined"
    using that by (simp add: newChoices_def resolveInput_undefined)
  have other: "c \<in> set (calls (fst (resolveInput medium input k devices))) \<Longrightarrow>
      c \<noteq> FindDeviceByName JsNull k' \<or> (input = JsNull \<and> k = k')" for c medium input k k'
    by (auto simp: resolveInput_def Let_def calls_Cons calls_Nil split: if_splits)
  show "FindDeviceByName JsNull AudioInput \<notin> set (calls (onJoin env data))"
    if "audioInput data = JsNull"
    using that other [of "FindDeviceByName JsNull AudioInput" "''video''" "videoInput data" VideoInput AudioInput]
    by (auto simp: onJoin_Some [OF dev] beforeEnter_def resolveInput_def [of _ JsNull]
        calls_append calls_Cons calls_Nil)
  show "FindDeviceByName JsNull VideoInput \<notin> set (calls (onJoin env data))"
    if "videoInput data = JsNull"
    using that other [of "FindDeviceByName JsNull VideoInput" "''audio''" "audioInput data" AudioInput VideoInput]
    by (auto simp: onJoin_Some [OF dev] beforeEnter_def resolveInput_def [of _ JsNull]
        calls_append calls_Cons calls_Nil)
  have warn: "LoggerWarn m \<in> set (calls (fst (resolveInput medium input k devices))) \<Longrightarrow>
      m = ''Unknown '' @ medium @ '' input: '' @ toString input" for m medium input k
    by (auto simp: resolveInput_def Let_def calls_Cons calls_Nil split: if_splits)
  show "LoggerWarn ''Unknown audio input: null'' \<notin> set (calls (onJoin env data))"
    if "audioInput data = JsNull"
    using that warn [of "''Unknown audio input: null''" "''video''" "videoInput data" VideoInput]
    by (auto simp: onJoin_Some [OF dev] beforeEnter_def resolveInput_def [of _ JsNull]
        calls_append calls_Cons calls_Nil)
  show "LoggerWarn ''Unknown video input: null'' \<notin> set (calls (onJoin env data))"
    if "videoInput data = JsNull"
    using that warn [of "''Unknown video input: null''" "''audio''" "audioInput data" AudioInput]
    by (auto simp: onJoin_Some [OF dev] beforeEnter_def resolveInput_def [of _ JsNull]
        calls_append calls_Cons calls_Nil)
  show "audio (newChoices devices data) = None" if "audioInput data = JsNull"
    using that by (simp add: newChoices_def resolveInput_def)
  show "video (newChoices devices data) = None" if "videoInput data = JsNull"
    using that by (simp add: newChoices_def resolveInput_def)
qed

theorem null_versus_undefined_input_witness:
  "FindDeviceByName JsUndefined AudioInput \<in>
     set (calls (onJoin (widgetEnv Resolved) \<lparr>audioInput = JsUndefined, videoInput = JsNull\<rparr>)) \<and>
   LoggerWarn ''Unknown audio input: undefined'' \<in>
     set (calls (onJoin (widgetEnv Resolved) \<lparr>audioInput = JsUndefined, videoInput = JsNull\<rparr>)) \<and>
   FindDeviceByName JsNull VideoInput \<notin>
     set (calls (onJoin (widgetEnv Resolved) \<lparr>audioInput = JsUndefined, videoInput = JsNull\<rparr>)) \<and>
   LoggerWarn ''Unknown video input: null'' \<notin>
     set (calls (onJoin (widgetEnv Resolved) \<lparr>audioInput = JsUndefined, videoInput = JsNull\<rparr>)) \<and>
   FindDeviceByName JsUndefined VideoInput \<in>
     set (calls (onJoin (widgetEnv Resolved) \<lparr>audioInput = JsNull, videoInput = JsUndefined\<rparr>)) \<and>
   LoggerWarn ''Unknown video input: undefined'' \<in>
     set (calls (onJoin (widgetEnv Resolved) \<lparr>audioInput = JsNull, videoInput = JsUndefined\<rparr>)) \<and>
   FindDeviceByName JsNull AudioInput \<notin>
     set (calls (onJoin (widgetEnv Resolved) \<lparr>audioInput = JsNull, videoInput = JsUndefined\<rparr>))"
  using null_versus_undefined_input
      [of "widgetEnv Resolved" scenarioB_devices "\<lparr>audioInput = JsUndefined, videoInput = JsNull\<rparr>"]
    null_versus_undefined_input
      [of "widgetEnv Resolved" scenarioB_devices "\<lparr>audioInput = JsNull, videoInput = JsUndefined\<rparr>"]
  by (simp add: widgetEnv_def)

subsection \<open>Telemetry of entering\<close>

lemma callStartedCount_beforeEnter: "callStartedCount (beforeEnter devices data) = 0"
  using beforeEnter_calls by (auto simp: callStartedCount_def filter_empty_conv)

lemma callStartedCount_append: "callStartedCount (s @ t) = callStartedCount s + callStartedCount t"
  by (simp add: callStartedCount_def calls_append)

lemma callStartedCount_onJoin:
  "callStartedCount (onJoin env data) =
     (if localDevices env \<noteq> None \<and> enterOutcome env = Resolved then 1 else 0)"
proof (cases "localDevices env")
  case None
  then show ?thesis
    by (simp add: onJoin_None callStartedCount_def calls_Cons calls_Nil)
next
  case (Some devices)
  have "callStartedCount (onJoin env data) =
      callStartedCount (Await Enter (enterOutcome env) #
     (if enterOutcome env = Resolved then
        [Do CacheStartCall, Do (TrackCallStarted (groupCallId env)),
         AwaitAll [SetAlwaysOnScreen True, TransportReply]]
      else []))"
    by (simp only: onJoin_Some [OF Some] callStartedCount_append callStartedCount_beforeEnter)
  also have "\<dots> = (if enterOutcome env = Resolved then 1 else 0)"
    by (simp add: callStartedCount_def calls_Cons calls_Nil)
  finally show ?thesis using Some by simp
qed

text \<open>
  C3. The number of "call started" events on each path that calls \<^verbatim>\<open>enter()\<close>: the
  \<^verbatim>\<open>onEnter\<close> callback of the lobby tracks none; the effect of embedded mode tracks one
  as soon as \<^verbatim>\<open>enter()\<close> was called, however its promise settles; the JoinCall handler
  tracks one exactly when \<^verbatim>\<open>enter()\<close> resolved. Only the last is once per completed
  \<^verbatim>\<open>enter()\<close>.
\<close>

theorem call_started_per_path:
  "callStartedCount (onEnter choices) = 0 \<and>
   callStartedCount (embeddedEnterEffect env p) = (if isEmbedded p \<and> \<not> preload p then 1 else 0) \<and>
   callStartedCount (onJoin env data) =
     (if localDevices env \<noteq> None \<and> enterOutcome env = Resolved then 1 else 0)"
  by (simp add: callStartedCount_onJoin)
    (simp add: callStartedCount_def onEnter_def embeddedEnterEffect_def calls_Cons calls_Nil)

theorem call_started_per_path_witness:
  "callStartedCount (onEnter \<lparr>audio = Some \<lparr>selectedId = ''mic-1'', enabled = True\<rparr>,
                              video = Some \<lparr>selectedId = ''cam-1'', enabled = True\<rparr>\<rparr>) = 0 \<and>
   callStartedCount (embeddedEnterEffect (widgetEnv Rejected)
                       (sessionState True False LocalCallFeedUninitialized)) = 1 \<and>
   callStartedCount (onJoin (widgetEnv Resolved) scenarioB_payload) = 1"
  using call_started_per_path
    [of "\<lparr>audio = Some \<lparr>selectedId = ''mic-1'', enabled = True\<rparr>,
          video = Some \<lparr>selectedId = ''cam-1'', enabled = True\<rparr>\<rparr>"
        "widgetEnv Rejected" "sessionState True False LocalCallFeedUninitialized" scenarioB_payload]
    call_started_per_path
    [of "\<lparr>audio = None, video = None\<rparr>"
        "widgetEnv Resolved" "sessionState True False LocalCallFeedUninitialized" scenarioB_payload]
  by (simp add: widgetEnv_def sessionState_def)

subsection \<open>Telemetry of leaving\<close>

lemma participantCountLoop_sum:
  "participantCountLoop acc ps = acc + sum_list (map (\<lambda>(member, deviceMap). length deviceMap) ps)"
  by (induction acc ps rule: participantCountLoop.induct) simp_all

text \<open>
  C4. The handler of a HangupCall command from the host calls \<^verbatim>\<open>leave()\<close> and tracks no
  "call ended" event, whereas \<^verbatim>\<open>onLeave\<close> calls \<^verbatim>\<open>leave()\<close> and tracks exactly one, with
  the sum of the sizes of the participants' device maps and with the immediate-delivery flag
  set exactly when the widget API is present.
\<close>

theorem call_ended_per_path:
  "callEndedCount (onHangup env) = 0 \<and>
   callEndedCount (handleHangupCall env p) = 0 \<and>
   Leave \<in> set (calls (onHangup env)) \<and>
   Leave \<in> set (calls (onLeave env p)) \<and>
   filter isCallEnded (calls (onLeave env p)) =
     [TrackCallEnded (groupCallId env)
        (sum_list (map (\<lambda>(member, deviceMap). length deviceMap) (participants env))) (widget env)]"
  by (simp add: callEndedCount_def handleHangupCall_def onHangup_def onLeave_def calls_def
      participantCountLoop_sum)

theorem call_ended_per_path_witness:
  "callEndedCount (handleHangupCall (widgetEnv Resolved) (sessionState True False Entered)) = 0 \<and>
   Leave \<in> set (calls (handleHangupCall (widgetEnv Resolved) (sessionState True False Entered))) \<and>
   filter isCallEnded (calls (onLeave (widgetEnv Resolved) (sessionState True False Entered))) =
     [TrackCallEnded ''call-1'' 3 True]"
  using call_ended_per_path [of "widgetEnv Resolved" "sessionState True False Entered"]
  by (simp add: widgetEnv_def sessionState_def handleHangupCall_def)

text \<open>
  C5. In \<^verbatim>\<open>onLeave\<close>, whatever the latencies between the steps, a HangupCall notification
  to the host is sent at least 10 ms after the "call ended" event was tracked. With the
  widget API present (the component running inside a host) the handler tracks the event,
  calls \<^verbatim>\<open>leave()\<close>, awaits the timer of 10 ms and only then clears always-on-screen, logs
  out and sends the notification, once; without it no notification is sent.
\<close>

theorem hangup_settle_delay:
  "((t1, Do (TrackCallEnded g n b)) \<in> set (schedule lat 0 t0 (onLeave env p)) \<and>
    (t2, Do (TransportSend HangupCall)) \<in> set (schedule lat 0 t0 (onLeave env p)) \<longrightarrow>
      t1 + 10 \<le> t2) \<and>
   (widget env \<longrightarrow>
      (\<exists>rest. onLeave env p =
         [Do (SetLeft True),
          Do (TrackCallEnded (groupCallId env) (participantCountLoop 0 (participants env)) True),
          Do Leave, Await (SetTimeout 10) Resolved, Do (SetAlwaysOnScreen False), Do Logout,
          Do (TransportSend HangupCall)] @ rest \<and>
         TransportSend HangupCall \<notin> set (calls rest))) \<and>
   (\<not> widget env \<longrightarrow> TransportSend HangupCall \<notin> set (calls (onLeave env p)))"
proof (intro conjI impI)
  show "t1 + 10 \<le> t2"
    if "(t1, Do (TrackCallEnded g n b)) \<in> set (schedule lat 0 t0 (onLeave env p)) \<and>
        (t2, Do (TransportSend HangupCall)) \<in> set (schedule lat 0 t0 (onLeave env p))"
    using that by (auto simp: onLeave_def Let_def split: if_splits)
  show "\<exists>rest. onLeave env p =
         [Do (SetLeft True),
          Do (TrackCallEnded (groupCallId env) (participantCountLoop 0 (participants env)) True),
          Do Leave, Await (SetTimeout 10) Resolved, Do (SetAlwaysOnScreen False), Do Logout,
          Do (TransportSend HangupCall)] @ rest \<and>
         TransportSend HangupCall \<notin> set (calls rest)" if "widget env"
    using that by (simp add: onLeave_def calls_def)
  show "TransportSend HangupCall \<notin> set (calls (onLeave env p))" if "\<not> widget env"
    using that by (simp add: onLeave_def calls_def)
qed

theorem hangup_settle_delay_witness:
  "schedule (\<lambda>i. 0) 0 1000 (onLeave (widgetEnv Resolved) (sessionState True False Entered)) =
     [(1000, Do (SetLeft True)), (1000, Do (TrackCallEnded ''call-1'' 3 True)), (1000, Do Leave),
      (1000, Await (SetTimeout 10) Resolved), (1010, Do (SetAlwaysOnScreen False)),
      (1010, Do Logout), (1010, Do (TransportSend HangupCall))] \<and>
   (1000::nat) + 10 \<le> 1010"
  using hangup_settle_delay [of 1000 "''call-1''" 3 True "\<lambda>i. 0" 1000 "widgetEnv Resolved"
      "sessionState True False Entered" 1010]
  by (simp add: widgetEnv_def sessionState_def onLeave_def)

subsection \<open>The preview: frozen devices and permission requests\<close>

lemma press_initialDefaultDevices: "initialDefaultDevices (press a h) = initialDefaultDevices h"
  by (cases a) simp_all

lemma VideoPreview_frozen:
  "initialDefaultDevices h = Some d \<Longrightarrow>
   initialDefaultDevices (fst (VideoPreview h env)) = Some d \<and>
   previewAudioDeviceId (snd (VideoPreview h env)) = audioinput d \<and>
   previewVideoDeviceId (snd (VideoPreview h env)) = videoinput d"
  by (simp add: VideoPreview_def Let_def useRef_def)

lemma VideoPreview_first:
  "initialDefaultDevices h = None \<Longrightarrow>
   initialDefaultDevices (fst (VideoPreview h env)) = Some (defaultDevices env) \<and>
   previewAudioDeviceId (snd (VideoPreview h env)) = audioinput (defaultDevices env) \<and>
   previewVideoDeviceId (snd (VideoPreview h env)) = videoinput (defaultDevices env)"
  by (simp add: VideoPreview_def Let_def useRef_def)

lemma renders_frozen:
  "initialDefaultDevices h = Some d \<Longrightarrow>
   map (\<lambda>r. (initialDefaultDevices (fst r), previewAudioDeviceId (snd r), previewVideoDeviceId (snd r)))
     (renders h steps) = replicate (length steps) (Some d, audioinput d, videoinput d)"
proof (induction steps arbitrary: h)
  case Nil
  then show ?case by simp
next
  case (Cons step steps)
  obtain a env where step: "step = (a, env)" by (cases step)
  from Cons.prems have "initialDefaultDevices (press a h) = Some d"
    by (simp add: press_initialDefaultDevices)
  from VideoPreview_frozen [OF this, of env] Cons.IH [of "fst (VideoPreview (press a h) env)"]
  show ?case by (simp add: step Let_def)
qed

text \<open>
  C6. Over the lifetime of one instance of \<^verbatim>\<open>VideoPreview\<close>, whatever the default devices
  are on later renders and whatever the user presses, the ref holds the default devices of
  the first render and the device ids handed to \<^verbatim>\<open>usePreviewTracks\<close> on every render are
  those of the first render.
\<close>

theorem preview_device_ids_frozen:
  "map (\<lambda>r. (initialDefaultDevices (fst r), previewAudioDeviceId (snd r), previewVideoDeviceId (snd r)))
     (lifetime env0 steps) =
   replicate (Suc (length steps))
     (Some (defaultDevices env0), audioinput (defaultDevices env0), videoinput (defaultDevices env0))"
proof -
  have m: "initialDefaultDevices (press Rerender mounting) = None"
    by (simp add: mounting_def)
  from VideoPreview_first [OF m, of env0]
    renders_frozen [of "fst (VideoPreview (press Rerender mounting) env0)" "defaultDevices env0" steps]
  show ?thesis
    by (simp add: lifetime_def Let_def)
qed

theorem preview_device_ids_frozen_witness:
  "map (\<lambda>r. (initialDefaultDevices (fst r), previewAudioDeviceId (snd r), previewVideoDeviceId (snd r)))
     (lifetime envA [(Rerender, envB), (PressMicButton, envB)]) =
   [(Some \<lparr>audioinput = Some ''mic-1'', videoinput = Some ''cam-1''\<rparr>, Some ''mic-1'', Some ''cam-1''),
    (Some \<lparr>audioinput = Some ''mic-1'', videoinput = Some ''cam-1''\<rparr>, Some ''mic-1'', Some ''cam-1''),
    (Some \<lparr>audioinput = Some ''mic-1'', videoinput = Some ''cam-1''\<rparr>, Some ''mic-1'', Some ''cam-1'')]"
  using preview_device_ids_frozen [of envA "[(Rerender, envB), (PressMicButton, envB)]"]
  by (simp add: envA_def numeral_3_eq_3)

lemma requestPermissions_iff: "requestPermissions (snd (VideoPreview h env)) = hasVideoTrack env"
proof (cases "tracks env")
  case None
  then show ?thesis by (simp add: VideoPreview_def Let_def trackOfKind_def hasVideoTrack_def)
next
  case (Some l)
  have "(filter (\<lambda>t. trackKind t = Video) l \<noteq> []) = list_ex (\<lambda>t. trackKind t = Video) l"
    by (simp add: filter_empty_conv list_ex_iff)
  then show ?thesis using Some
    by (cases "filter (\<lambda>t. trackKind t = Video) l")
      (simp_all add: VideoPreview_def Let_def trackOfKind_def hasVideoTrack_def)
qed

lemma permissionRequests_renders:
  "\<forall>s\<in>set steps. \<not> hasVideoTrack (snd s) \<Longrightarrow> permissionRequests n (renders h steps) = 0"
proof (induction steps arbitrary: h)
  case Nil
  then show ?case by (simp add: permissionRequests_def)
next
  case (Cons step steps)
  obtain a env where step: "step = (a, env)" by (cases step)
  from Cons.prems have "\<not> hasVideoTrack env" and rest: "\<forall>s\<in>set steps. \<not> hasVideoTrack (snd s)"
    by (simp_all add: step)
  then have "switcherPermissionRequests n (requestPermissions (snd (VideoPreview (press a h) env))) = 0"
    by (simp add: requestPermissions_iff switcherPermissionRequests_def)
  moreover have "permissionRequests n (renders (fst (VideoPreview (press a h) env)) steps) = 0"
    using Cons.IH rest by blast
  ultimately show ?case
    by (simp add: step Let_def permissionRequests_def)
qed

lemma renders_append_take: "take (length xs) (renders h (xs @ ys)) = renders h xs"
proof (induction xs arbitrary: h)
  case Nil
  then show ?case by simp
next
  case (Cons x xs)
  obtain a env where "x = (a, env)" by (cases x)
  with Cons.IH show ?case by (simp add: Let_def)
qed

text \<open>
  C7. The flag \<^verbatim>\<open>requestPermissions\<close> handed to the device switcher is set exactly when a
  video track is available; and up to any render of a lifetime before which (and at which)
  no video track was available, the switcher has made no permission request.
\<close>

theorem no_permission_request_before_video_track:
  "(requestPermissions (snd (VideoPreview h env)) \<longleftrightarrow> hasVideoTrack env) \<and>
   (\<not> hasVideoTrack env0 \<and> (\<forall>s\<in>set before. \<not> hasVideoTrack (snd s)) \<longrightarrow>
      permissionRequests n (take (Suc (length before)) (lifetime env0 (before @ after))) = 0)"
proof (intro conjI impI)
  show "requestPermissions (snd (VideoPreview h env)) \<longleftrightarrow> hasVideoTrack env"
    by (rule requestPermissions_iff)
  show "permissionRequests n (take (Suc (length before)) (lifetime env0 (before @ after))) = 0"
    if h: "\<not> hasVideoTrack env0 \<and> (\<forall>s\<in>set before. \<not> hasVideoTrack (snd s))"
  proof -
    have "take (Suc (length before)) (lifetime env0 (before @ after)) =
        renders mounting ((Rerender, env0) # before)"
      using renders_append_take [of "(Rerender, env0) # before" mounting after]
      by (simp add: lifetime_def)
    moreover have "permissionRequests n (renders mounting ((Rerender, env0) # before)) = 0"
      using h by (intro permissionRequests_renders) simp
    ultimately show ?thesis by simp
  qed
qed

theorem no_permission_request_before_video_track_witness:
  "\<not> requestPermissions (snd (VideoPreview mounting envA)) \<and>
   requestPermissions (snd (VideoPreview mounting envB)) \<and>
   permissionRequests 1 (take 2 (lifetime envA [(PressMicButton, envA), (Rerender, envB)])) = 0"
  using no_permission_request_before_video_track [of mounting envA envA "[(PressMicButton, envA)]" 1 "[(Rerender, envB)]"]
    no_permission_request_before_video_track [of mounting envB envA "[]" 1 "[]"]
  by (simp add: hasVideoTrack_def envA_def envB_def numeral_2_eq_2)

subsection \<open>The preview: emitted user choices\<close>

lemma createChoices_spec_entry: "createChoices flag resolved = spec_entry flag resolved"
  by (cases resolved) (simp_all add: createChoices_def spec_entry_def falsy_def)

lemma VideoPreview_emitted:
  "emittedChoices (snd (VideoPreview h env)) =
     (if choicesEffectDeps h = Some (depsOf h env) then [] else [spec_choices h env])"
  by (simp add: VideoPreview_def Let_def depsChanged_def depsOf_def spec_choices_def
      createChoices_spec_entry)

lemma VideoPreview_hooks:
  "choicesEffectDeps (fst (VideoPreview h env)) = Some (depsOf h env) \<and>
   audioEnabled (fst (VideoPreview h env)) = audioEnabled h \<and>
   videoEnabled (fst (VideoPreview h env)) = videoEnabled h"
  by (simp add: VideoPreview_def Let_def depsOf_def)

lemma spec_choices_cong:
  "depsOf h env = depsOf h' env' \<Longrightarrow> spec_choices h env = spec_choices h' env'"
  by (simp add: depsOf_def spec_choices_def)

lemma spec_choices_after: "spec_choices (fst (VideoPreview h env)) env = spec_choices h env"
  by (simp add: spec_choices_def VideoPreview_hooks)

lemma depsOf_after: "depsOf (fst (VideoPreview h env)) env = depsOf h env"
  by (simp add: depsOf_def VideoPreview_hooks)

lemma emissions_Cons: "emissions (r # rs) = emittedChoices (snd r) @ emissions rs"
  by (simp add: emissions_def)

lemma emissions_Nil: "emissions [] = []"
  by (simp add: emissions_def)

text \<open>Every emission is the choices of the render that made it, and there is at most one.\<close>

lemma renders_emitted:
  "list_all2 (\<lambda>s r. emittedChoices (snd r) = [] \<or> emittedChoices (snd r) = [spec_choices (fst r) (snd s)])
     steps (renders h steps)"
proof (induction steps arbitrary: h)
  case Nil
  then show ?case by simp
next
  case (Cons step steps)
  obtain a env where step: "step = (a, env)" by (cases step)
  show ?case
    using Cons.IH [of "fst (VideoPreview (press a h) env)"]
    by (simp add: step Let_def VideoPreview_emitted spec_choices_after)
qed

text \<open>The invariant: the last emission is the choices of the current state.\<close>

lemma renders_last_emission:
  assumes "choicesEffectDeps h = Some (depsOf h env)" and "ems \<noteq> []"
    and "last ems = spec_choices h env"
  shows "last (ems @ emissions (renders h steps)) =
           spec_choices (fst (last ((h, out) # renders h steps))) (snd (last ((a0, env) # steps)))"
  using assms
proof (induction steps arbitrary: h env ems out a0)
  case Nil
  then show ?case by (simp add: emissions_Nil)
next
  case (Cons step steps)
  obtain a env' where step: "step = (a, env')" by (cases step)
  let ?r = "VideoPreview (press a h) env'"
  let ?ems = "ems @ emittedChoices (snd ?r)"
  have d: "choicesEffectDeps (fst ?r) = Some (depsOf (fst ?r) env')"
    by (simp add: VideoPreview_hooks depsOf_after)
  have ne: "?ems \<noteq> []" using Cons.prems by simp
  have l: "last ?ems = spec_choices (fst ?r) env'"
  proof (cases "choicesEffectDeps (press a h) = Some (depsOf (press a h) env')")
    case True
    have "choicesEffectDeps (press a h) = choicesEffectDeps h" by (cases a) simp_all
    with True Cons.prems(1) have "depsOf h env = depsOf (press a h) env'" by simp
    then have "spec_choices h env = spec_choices (press a h) env'" by (rule spec_choices_cong)
    with True Cons.prems show ?thesis
      by (simp add: VideoPreview_emitted spec_choices_after)
  next
    case False
    then show ?thesis by (simp add: VideoPreview_emitted spec_choices_after)
  qed
  from Cons.IH [OF d ne l, of "snd ?r" a]
  show ?case by (simp add: step Let_def emissions_Cons)
qed

text \<open>
  C8. Over the lifetime of one instance of \<^verbatim>\<open>VideoPreview\<close>: every render emits nothing or
  one \<^verbatim>\<open>UserChoices\<close> value, whose audio and video entries are both computed from that
  render's state (the enabled flag paired with the selected device id, the entry absent
  when the id is unresolved); the first render emits; the most recent emission is always
  the choices of the current state; and a render at which a selected device id or an
  enabled flag differs from the last emission's emits.
\<close>

theorem user_choices_emitted_together:
  "list_all2 (\<lambda>s r. emittedChoices (snd r) = [] \<or> emittedChoices (snd r) = [spec_choices (fst r) (snd s)])
     ((Rerender, env0) # steps) (lifetime env0 steps) \<and>
   emissions (lifetime env0 steps) \<noteq> [] \<and>
   last (emissions (lifetime env0 steps)) =
     spec_choices (fst (last (lifetime env0 steps))) (snd (last ((Rerender, env0) # steps))) \<and>
   (choicesEffectDeps h = Some (cb, videoId, videoFlag, audioId, audioFlag) \<and>
    (videoId, videoFlag, audioId, audioFlag) \<noteq>
      (videoInSelectedId env, videoEnabled (press a h), audioInSelectedId env, audioEnabled (press a h)) \<longrightarrow>
      emittedChoices (snd (VideoPreview (press a h) env)) =
        [\<lparr>audio = spec_entry (audioEnabled (press a h)) (audioInSelectedId env),
          video = spec_entry (videoEnabled (press a h)) (videoInSelectedId env)\<rparr>])"
proof (intro conjI impI)
  show "list_all2 (\<lambda>s r. emittedChoices (snd r) = [] \<or> emittedChoices (snd r) = [spec_choices (fst r) (snd s)])
     ((Rerender, env0) # steps) (lifetime env0 steps)"
    unfolding lifetime_def by (rule renders_emitted)
  let ?r = "VideoPreview mounting env0"
  have first: "emittedChoices (snd ?r) = [spec_choices (fst ?r) env0]"
    by (simp add: VideoPreview_emitted spec_choices_after mounting_def)
  have d: "choicesEffectDeps (fst ?r) = Some (depsOf (fst ?r) env0)"
    by (simp add: VideoPreview_hooks depsOf_after)
  have lt: "lifetime env0 steps = ?r # renders (fst ?r) steps"
    by (simp add: lifetime_def Let_def)
  show "emissions (lifetime env0 steps) \<noteq> []"
    by (simp add: lt emissions_Cons first)
  from renders_last_emission [OF d, of "emittedChoices (snd ?r)" steps "snd ?r" Rerender] first
  show "last (emissions (lifetime env0 steps)) =
     spec_choices (fst (last (lifetime env0 steps))) (snd (last ((Rerender, env0) # steps)))"
    by (simp add: lt emissions_Cons)
  show "emittedChoices (snd (VideoPreview (press a h) env)) =
        [\<lparr>audio = spec_entry (audioEnabled (press a h)) (audioInSelectedId env),
          video = spec_entry (videoEnabled (press a h)) (videoInSelectedId env)\<rparr>]"
    if h: "choicesEffectDeps h = Some (cb, videoId, videoFlag, audioId, audioFlag) \<and>
    (videoId, videoFlag, audioId, audioFlag) \<noteq>
      (videoInSelectedId env, videoEnabled (press a h), audioInSelectedId env, audioEnabled (press a h))"
  proof -
    have "choicesEffectDeps (press a h) = choicesEffectDeps h" by (cases a) simp_all
    with h have "choicesEffectDeps (press a h) \<noteq> Some (depsOf (press a h) env)"
      by (auto simp: depsOf_def)
    then show ?thesis
      by (simp add: VideoPreview_emitted spec_choices_def)
  qed
qed

theorem user_choices_emitted_together_witness:
  "emissions (lifetime envA [(Rerender, envB), (PressMicButton, envB), (Rerender, envB)]) =
     [\<lparr>audio = None, video = None\<rparr>,
      \<lparr>audio = Some \<lparr>selectedId = ''mic-1'', enabled = True\<rparr>,
       video = Some \<lparr>selectedId = ''cam-1'', enabled = True\<rparr>\<rparr>,
      \<lparr>audio = Some \<lparr>selectedId = ''mic-1'', enabled = False\<rparr>,
       video = Some \<lparr>selectedId = ''cam-1'', enabled = True\<rparr>\<rparr>] \<and>
   emittedChoices (snd (VideoPreview (press PressMicButton (fst (VideoPreview mounting envB))) envB)) =
     [\<lparr>audio = Some \<lparr>selectedId = ''mic-1'', enabled = False\<rparr>,
       video = Some \<lparr>selectedId = ''cam-1'', enabled = True\<rparr>\<rparr>]"
  using user_choices_emitted_together
    [of envA "[(Rerender, envB), (PressMicButton, envB), (Rerender, envB)]"
        "fst (VideoPreview mounting envB)" 0 "Some ''cam-1''" True "Some ''mic-1''" True envB PressMicButton]
  by (simp add: lifetime_def emissions_def VideoPreview_def mounting_def envA_def envB_def Let_def
      useRef_def depsChanged_def depsOf_def createChoices_def falsy_def trackOfKind_def
      spec_entry_def)

end
